theory Spec2Isabelle
  imports Main
begin

section \<open>ctxdb: a database handle carried by a Context\<close>

text \<open>
  The package stores a database handle in a \<^verbatim>\<open>context.Context\<close> under a private key,
  resolves it again on every data-access call, and runs a unit of work inside a transaction
  that it commits, rolls back, or rolls back silently on the sentinel \<^verbatim>\<open>Rollback\<close>.
  This theory embeds \<^verbatim>\<open>src/ctxdb.go\<close> function by function. Calls into the handle and
  into the transaction are effects on an explicit state; every call that an invocation
  makes itself is also appended to a call log, so that the number and the order of the
  calls can be stated.
\<close>

subsection \<open>Errors\<close>

text \<open>
  A Go \<^verbatim>\<open>error\<close> is an interface value. Three dynamic types occur here: the package's
  own empty struct \<^verbatim>\<open>rollback\<close> (all of whose values are equal), the pointer type
  returned by \<^verbatim>\<open>errors.New\<close>, and the pointer type returned by \<^verbatim>\<open>fmt.Errorf\<close> with
  \<^verbatim>\<open>%w\<close>. The two pointer types compare by address, which is the first argument of
  their constructors. The nil error is \<open>None\<close> of \<open>error option\<close>; \<^verbatim>\<open>==\<close> on errors
  is equality of this datatype.
\<close>

datatype error =
    rollback
  | errorString nat string
  | wrapError nat string error

fun Error :: "error \<Rightarrow> string" where
  "Error rollback = ''rolling back''"
| "Error (errorString a s) = s"
| "Error (wrapError a s e) = s"

definition Rollback :: error where
  "Rollback = rollback"

definition errMissingDB :: error where
  "errMissingDB = errorString 0 ''missing Databaser in context''"

definition errCantTx :: error where
  "errCantTx = errorString 1 ''can't begin transaction on Databaser in context''"

text \<open>
  The standard library's \<^verbatim>\<open>errors.Is\<close>, which follows the chain of wrapped errors. The
  package never calls it; it is here to say which errors wrap the sentinel.
\<close>

fun errors_Is :: "error \<Rightarrow> error \<Rightarrow> bool" where
  "errors_Is rollback target = (rollback = target)"
| "errors_Is (errorString a s) target = (errorString a s = target)"
| "errors_Is (wrapError a s e) target = (wrapError a s e = target \<or> errors_Is e target)"

subsection \<open>Handles, interface values and contexts\<close>

text \<open>
  A handle is a non-nil value that implements \<^verbatim>\<open>Databaser\<close>: one of the three types of
  \<^verbatim>\<open>database/sql\<close> named in the interface's comment, or a type of the caller's, which
  may or may not have a \<^verbatim>\<open>BeginTx\<close> method. The number is the pointer. A value of the
  interface type \<^verbatim>\<open>Databaser\<close> is a \<open>handle option\<close>, \<open>None\<close> being the nil interface.
\<close>

datatype handle =
    sqlDB nat
  | sqlConn nat
  | sqlTx nat
  | custom nat bool

fun implements_beginTxer :: "handle \<Rightarrow> bool" where
  "implements_beginTxer (sqlDB p) = True"
| "implements_beginTxer (sqlConn p) = True"
| "implements_beginTxer (sqlTx p) = False"
| "implements_beginTxer (custom p b) = b"

text \<open>A value of type \<^verbatim>\<open>interface{}\<close>, as a context stores it.\<close>

datatype any_value =
    anyNil
  | anyDatabaser handle
  | anyOther nat

text \<open>
  Context keys: the package's private \<^verbatim>\<open>connKey{}\<close> and the keys of other packages.
  A context is the background context, a node made by \<^verbatim>\<open>context.WithValue\<close>, or a
  node made by \<^verbatim>\<open>WithCancel\<close>, \<^verbatim>\<open>WithDeadline\<close> or \<^verbatim>\<open>WithTimeout\<close>, which
  passes lookups on to its parent. Contexts are non-nil.
\<close>

datatype key = connKey | otherKey nat

datatype Context =
    Background
  | valueCtx Context key any_value
  | cancelCtx Context

fun Value :: "Context \<Rightarrow> key \<Rightarrow> any_value" where
  "Value Background k = anyNil"
| "Value (valueCtx parent k' v) k = (if k' = k then v else Value parent k)"
| "Value (cancelCtx parent) k = Value parent k"

definition WithValue :: "Context \<Rightarrow> key \<Rightarrow> any_value \<Rightarrow> Context" where
  "WithValue parent k v = valueCtx parent k v"

text \<open>Conversion of a \<^verbatim>\<open>Databaser\<close> to \<^verbatim>\<open>interface{}\<close>, and the type assertions.\<close>

fun to_any :: "handle option \<Rightarrow> any_value" where
  "to_any None = anyNil"
| "to_any (Some h) = anyDatabaser h"

fun assert_Databaser :: "any_value \<Rightarrow> handle option \<times> bool" where
  "assert_Databaser anyNil = (None, False)"
| "assert_Databaser (anyDatabaser h) = (Some h, True)"
| "assert_Databaser (anyOther n) = (None, False)"

fun assert_beginTxer :: "handle option \<Rightarrow> handle option \<times> bool" where
  "assert_beginTxer None = (None, False)"
| "assert_beginTxer (Some h) = (if implements_beginTxer h then (Some h, True) else (None, False))"

subsection \<open>With and getDB\<close>

definition With :: "Context \<Rightarrow> handle option \<Rightarrow> Context" where
  "With ctx db = WithValue ctx connKey (to_any db)"

definition getDB :: "Context \<Rightarrow> handle option \<times> bool" where
  "getDB ctx = assert_Databaser (Value ctx connKey)"

subsection \<open>The collaborator and the state\<close>

text \<open>
  A call either returns a value or panics. The package never recovers, so a panic of a
  callee is the outcome of the caller. Two calls can panic here: a method call on a nil
  interface value, and the unit of work.
\<close>

datatype 'a outcome = Returns 'a | Panics

record TxOptions =
  Isolation :: int
  ReadOnly :: bool

text \<open>
  A \<^verbatim>\<open>*sql.Row\<close> points to a struct holding a deferred error and the rows to scan.
  \<^verbatim>\<open>sql.Result\<close> values, \<^verbatim>\<open>*sql.Rows\<close> and \<^verbatim>\<open>*sql.Tx\<close> are numbers; where a
  nil is possible the type is an option.
\<close>

datatype sqlRow = Row "error option" "nat option"

text \<open>
  What the methods of the handles and of \<^verbatim>\<open>*sql.Tx\<close> do is not the package's business:
  they are parameters, functions on a world \<open>'d\<close> that return what the signatures of
  \<^verbatim>\<open>database/sql\<close> declare.
\<close>

record 'd collaborator =
  BeginTx :: "handle \<Rightarrow> Context \<Rightarrow> TxOptions option \<Rightarrow> 'd \<Rightarrow> (nat \<times> error option) \<times> 'd"
  Tx_Commit :: "nat \<Rightarrow> 'd \<Rightarrow> error option \<times> 'd"
  Tx_Rollback :: "nat \<Rightarrow> 'd \<Rightarrow> error option \<times> 'd"
  ExecContext :: "handle \<Rightarrow> Context \<Rightarrow> string \<Rightarrow> any_value list \<Rightarrow> 'd
                    \<Rightarrow> (nat option \<times> error option) \<times> 'd"
  QueryContext :: "handle \<Rightarrow> Context \<Rightarrow> string \<Rightarrow> any_value list \<Rightarrow> 'd
                    \<Rightarrow> (nat option \<times> error option) \<times> 'd"
  QueryRowContext :: "handle \<Rightarrow> Context \<Rightarrow> string \<Rightarrow> any_value list \<Rightarrow> 'd
                    \<Rightarrow> sqlRow option \<times> 'd"
  Rows_Scan :: "nat option \<Rightarrow> 'd \<Rightarrow> error option \<times> 'd"

text \<open>
  The calls an invocation of a package function makes itself, in the order it makes them.
  What the unit of work does inside is its effect on the world.
\<close>

datatype event =
    BeginTx_called handle Context "TxOptions option"
  | work_called Context
  | Commit_called nat
  | Rollback_called nat
  | ExecContext_called handle Context string "any_value list"
  | QueryContext_called handle Context string "any_value list"
  | QueryRowContext_called handle Context string "any_value list"

record 'd state =
  calls :: "event list"
  world :: "'d"

text \<open>
  The unit of work is the caller's code: given the context it acts on the world and
  returns an error or nil, or panics (as a nil func does when called).
\<close>

type_synonym 'd work = "Context \<Rightarrow> 'd \<Rightarrow> error option outcome \<times> 'd"

definition logged :: "event \<Rightarrow> 'd state \<Rightarrow> 'd \<Rightarrow> 'd state" where
  "logged ev s w = \<lparr>calls = calls s @ [ev], world = w\<rparr>"

text \<open>A method call on an interface value; on the nil interface it panics.\<close>

definition call_BeginTx ::
  "'d collaborator \<Rightarrow> handle option \<Rightarrow> Context \<Rightarrow> TxOptions option \<Rightarrow> 'd state
     \<Rightarrow> (nat \<times> error option) outcome \<times> 'd state" where
  "call_BeginTx C txer ctx opts s =
     (case txer of
        None \<Rightarrow> (Panics, s)
      | Some h \<Rightarrow>
          (case BeginTx C h ctx opts (world s) of
             (r, w) \<Rightarrow> (Returns r, logged (BeginTx_called h ctx opts) s w)))"

definition call_work :: "'d work \<Rightarrow> Context \<Rightarrow> 'd state \<Rightarrow> error option outcome \<times> 'd state" where
  "call_work f ctx s = (case f ctx (world s) of (r, w) \<Rightarrow> (r, logged (work_called ctx) s w))"

definition call_Commit :: "'d collaborator \<Rightarrow> nat \<Rightarrow> 'd state \<Rightarrow> error option \<times> 'd state" where
  "call_Commit C tx s = (case Tx_Commit C tx (world s) of (r, w) \<Rightarrow> (r, logged (Commit_called tx) s w))"

definition call_Rollback :: "'d collaborator \<Rightarrow> nat \<Rightarrow> 'd state \<Rightarrow> error option \<times> 'd state" where
  "call_Rollback C tx s =
     (case Tx_Rollback C tx (world s) of (r, w) \<Rightarrow> (r, logged (Rollback_called tx) s w))"

subsection \<open>Tx\<close>

definition Tx :: "'d collaborator \<Rightarrow> Context \<Rightarrow> 'd work \<Rightarrow> 'd state \<Rightarrow> error option outcome \<times> 'd state" where
  "Tx C ctx f s =
     (case getDB ctx of (db, ok) \<Rightarrow>
      if \<not> ok then (Returns (Some errMissingDB), s)
      else
       (case assert_beginTxer db of (txer, ok) \<Rightarrow>
        if \<not> ok then (Returns (Some errCantTx), s)
        else
         (case call_BeginTx C txer ctx None s of
            (Panics, s1) \<Rightarrow> (Panics, s1)
          | (Returns (tx, err), s1) \<Rightarrow>
              if err \<noteq> None then (Returns err, s1)
              else
               (case call_work f (With ctx (Some (sqlTx tx))) s1 of
                  (Panics, s2) \<Rightarrow> (Panics, s2)
                | (Returns err, s2) \<Rightarrow>
                    if err \<noteq> None then
                      (case call_Rollback C tx s2 of
                         (discarded, s3) \<Rightarrow>
                           if err = Some Rollback then (Returns None, s3)
                           else (Returns err, s3))
                    else
                      (case call_Commit C tx s2 of (r, s3) \<Rightarrow> (Returns r, s3))))))"

subsection \<open>Exec, Query and QueryRow\<close>

definition call_ExecContext ::
  "'d collaborator \<Rightarrow> handle option \<Rightarrow> Context \<Rightarrow> string \<Rightarrow> any_value list \<Rightarrow> 'd state
     \<Rightarrow> (nat option \<times> error option) outcome \<times> 'd state" where
  "call_ExecContext C db ctx query args s =
     (case db of
        None \<Rightarrow> (Panics, s)
      | Some h \<Rightarrow>
          (case ExecContext C h ctx query args (world s) of
             (r, w) \<Rightarrow> (Returns r, logged (ExecContext_called h ctx query args) s w)))"

definition call_QueryContext ::
  "'d collaborator \<Rightarrow> handle option \<Rightarrow> Context \<Rightarrow> string \<Rightarrow> any_value list \<Rightarrow> 'd state
     \<Rightarrow> (nat option \<times> error option) outcome \<times> 'd state" where
  "call_QueryContext C db ctx query args s =
     (case db of
        None \<Rightarrow> (Panics, s)
      | Some h \<Rightarrow>
          (case QueryContext C h ctx query args (world s) of
             (r, w) \<Rightarrow> (Returns r, logged (QueryContext_called h ctx query args) s w)))"

definition call_QueryRowContext ::
  "'d collaborator \<Rightarrow> handle option \<Rightarrow> Context \<Rightarrow> string \<Rightarrow> any_value list \<Rightarrow> 'd state
     \<Rightarrow> sqlRow option outcome \<times> 'd state" where
  "call_QueryRowContext C db ctx query args s =
     (case db of
        None \<Rightarrow> (Panics, s)
      | Some h \<Rightarrow>
          (case QueryRowContext C h ctx query args (world s) of
             (r, w) \<Rightarrow> (Returns r, logged (QueryRowContext_called h ctx query args) s w)))"

definition Exec ::
  "'d collaborator \<Rightarrow> Context \<Rightarrow> string \<Rightarrow> any_value list \<Rightarrow> 'd state
     \<Rightarrow> (nat option \<times> error option) outcome \<times> 'd state" where
  "Exec C ctx query args s =
     (case getDB ctx of (db, ok) \<Rightarrow>
      if \<not> ok then (Returns (None, Some errMissingDB), s)
      else call_ExecContext C db ctx query args s)"

definition Query ::
  "'d collaborator \<Rightarrow> Context \<Rightarrow> string \<Rightarrow> any_value list \<Rightarrow> 'd state
     \<Rightarrow> (nat option \<times> error option) outcome \<times> 'd state" where
  "Query C ctx query args s =
     (case getDB ctx of (db, ok) \<Rightarrow>
      if \<not> ok then (Returns (None, Some errMissingDB), s)
      else call_QueryContext C db ctx query args s)"

text \<open>Modelled from the spec: the package's type \<^verbatim>\<open>row\<close>, which \<^verbatim>\<open>QueryRow\<close> builds
  and which is not in \<^verbatim>\<open>src/ctxdb.go\<close>. The spec calls it a result placeholder that only
  surfaces its error when consumed; the source shows its one field, \<^verbatim>\<open>err\<close>.\<close>

datatype row = row "error option"

text \<open>Modelled from the spec: the method \<^verbatim>\<open>intoDBRow\<close> of \<^verbatim>\<open>row\<close>, not in
  \<^verbatim>\<open>src/ctxdb.go\<close>. It gives a usable (non-nil) \<^verbatim>\<open>*sql.Row\<close> that defers the same
  error and has no rows.\<close>

fun intoDBRow :: "row \<Rightarrow> sqlRow option" where
  "intoDBRow (row e) = Some (Row e None)"

text \<open>Modelled from the spec: consuming a row (\<^verbatim>\<open>Scan\<close> of \<^verbatim>\<open>database/sql\<close>) checks the
  stored error first and returns it; only a row without a deferred error reads its rows.\<close>

fun Scan :: "'d collaborator \<Rightarrow> sqlRow \<Rightarrow> 'd \<Rightarrow> error option \<times> 'd" where
  "Scan C (Row (Some e) rows) w = (Some e, w)"
| "Scan C (Row None rows) w = Rows_Scan C rows w"

definition QueryRow ::
  "'d collaborator \<Rightarrow> Context \<Rightarrow> string \<Rightarrow> any_value list \<Rightarrow> 'd state
     \<Rightarrow> sqlRow option outcome \<times> 'd state" where
  "QueryRow C ctx query args s =
     (case getDB ctx of (db, ok) \<Rightarrow>
      if \<not> ok then (Returns (intoDBRow (row (Some errMissingDB))), s)
      else call_QueryRowContext C db ctx query args s)"

subsection \<open>Reading the call log\<close>

text \<open>The calls made between an earlier state and a later one.\<close>

definition issued :: "'d state \<Rightarrow> 'd state \<Rightarrow> event list" where
  "issued s s' = drop (length (calls s)) (calls s')"

fun is_begin :: "event \<Rightarrow> bool" where
  "is_begin (BeginTx_called h ctx opts) = True"
| "is_begin ev = False"

fun is_work :: "event \<Rightarrow> bool" where
  "is_work (work_called ctx) = True"
| "is_work ev = False"

fun is_terminal :: "event \<Rightarrow> bool" where
  "is_terminal (Commit_called tx) = True"
| "is_terminal (Rollback_called tx) = True"
| "is_terminal ev = False"

subsection \<open>A collaborator with fixed answers\<close>

text \<open>
  For concrete runs: a world that counts the writes pending in the open transaction and
  the writes that persisted. \<open>BeginTx\<close>, \<open>Commit\<close> and \<open>Rollback\<close> answer with the
  given values; a commit that succeeds makes the pending writes persist, a rollback that
  succeeds drops them.
\<close>

definition fixed ::
  "nat \<times> error option \<Rightarrow> error option \<Rightarrow> error option \<Rightarrow> (nat \<times> nat) collaborator" where
  "fixed begin commit rb =
     \<lparr>BeginTx = (\<lambda>h ctx opts w. (begin, w)),
      Tx_Commit = (\<lambda>tx (pending, persisted).
         (commit, if commit = None then (0, persisted + pending) else (pending, persisted))),
      Tx_Rollback = (\<lambda>tx (pending, persisted).
         (rb, if rb = None then (0, persisted) else (pending, persisted))),
      ExecContext = (\<lambda>h ctx query args w. ((Some 0, None), w)),
      QueryContext = (\<lambda>h ctx query args w. ((Some 0, None), w)),
      QueryRowContext = (\<lambda>h ctx query args w. (Some (Row None (Some 0)), w)),
      Rows_Scan = (\<lambda>rows w. (None, w))\<rparr>"

definition ErrTxDone :: error where
  "ErrTxDone = errorString 2 ''sql: transaction has already been committed or rolled back''"

definition ErrConnDone :: error where
  "ErrConnDone = errorString 3 ''sql: connection is already closed''"

definition start :: "(nat \<times> nat) state" where
  "start = \<lparr>calls = [], world = (0, 0)\<rparr>"

text \<open>A request context carrying a pool, and a unit of work that writes once.\<close>

definition request :: Context where
  "request = With (cancelCtx Background) (Some (sqlDB 1))"

definition writes_then :: "error option outcome \<Rightarrow> (nat \<times> nat) work" where
  "writes_then r = (\<lambda>ctx (pending, persisted). (r, (Suc pending, persisted)))"

section \<open>Properties\<close>

subsection \<open>Auxiliary facts\<close>

lemma getDB_With: "getDB (With ctx db) = assert_Databaser (to_any db)"
  by (simp add: getDB_def With_def WithValue_def)

text \<open>
  Once a handle with \<^verbatim>\<open>BeginTx\<close> is resolved and the transaction has begun, the run
  is decided by what the unit of work does.
\<close>

lemma Tx_begun:
  assumes "getDB ctx = (Some h, True)" and "implements_beginTxer h"
    and "BeginTx C h ctx None (world s) = ((tx, None), w1)"
  shows "Tx C ctx f s =
    (case f (With ctx (Some (sqlTx tx))) w1 of
       (Panics, w2) \<Rightarrow>
         (Panics, \<lparr>calls = calls s @ [BeginTx_called h ctx None,
                      work_called (With ctx (Some (sqlTx tx)))], world = w2\<rparr>)
     | (Returns None, w2) \<Rightarrow>
         (case Tx_Commit C tx w2 of (r, w3) \<Rightarrow>
           (Returns r, \<lparr>calls = calls s @ [BeginTx_called h ctx None,
                      work_called (With ctx (Some (sqlTx tx))), Commit_called tx], world = w3\<rparr>))
     | (Returns (Some e), w2) \<Rightarrow>
         (case Tx_Rollback C tx w2 of (r, w3) \<Rightarrow>
           (Returns (if e = Rollback then None else Some e),
            \<lparr>calls = calls s @ [BeginTx_called h ctx None,
                      work_called (With ctx (Some (sqlTx tx))), Rollback_called tx], world = w3\<rparr>)))"
  using assms
  by (simp add: Tx_def call_BeginTx_def call_work_def call_Rollback_def call_Commit_def logged_def
      split: prod.splits outcome.splits option.splits)

lemmas run_defs = fixed_def start_def request_def writes_then_def Rollback_def
  ErrTxDone_def ErrConnDone_def errMissingDB_def errCantTx_def With_def WithValue_def getDB_def

subsection \<open>The outcome of a transaction\<close>

text \<open>
  C1. Let the context carry a handle with \<^verbatim>\<open>BeginTx\<close> and let \<^verbatim>\<open>BeginTx\<close> succeed. If the
  unit of work returns the sentinel \<^verbatim>\<open>Rollback\<close>, then \<^verbatim>\<open>Tx\<close> calls \<^verbatim>\<open>Rollback\<close> on the
  transaction, ignores what that call returns, and returns nil. The test is on the value
  itself: among the errors the work can return, \<^verbatim>\<open>Tx\<close> returns nil for the sentinel and
  for no other, whatever its message.
\<close>

theorem Tx_absorbs_Rollback:
  assumes "getDB ctx = (Some h, True)" and "implements_beginTxer h"
    and "BeginTx C h ctx None (world s) = ((tx, None), w1)"
    and "f (With ctx (Some (sqlTx tx))) w1 = (Returns (Some err), w2)"
    and "Tx_Rollback C tx w2 = (discarded, w3)"
  shows "(err = Rollback \<longrightarrow>
            Tx C ctx f s =
              (Returns None,
               \<lparr>calls = calls s @ [BeginTx_called h ctx None,
                    work_called (With ctx (Some (sqlTx tx))), Rollback_called tx],
                world = w3\<rparr>))
       \<and> (fst (Tx C ctx f s) = Returns None \<longleftrightarrow> err = Rollback)"
  using assms(4,5) by (simp add: Tx_begun [OF assms(1,2,3)])

text \<open>
  A run in which the rollback itself fails, and a run whose work returns another error
  with the sentinel's message.
\<close>

theorem Tx_absorbs_Rollback_witness:
  "Tx (fixed (5, None) None (Some ErrTxDone)) request (writes_then (Returns (Some Rollback))) start =
     (Returns None,
      \<lparr>calls = [BeginTx_called (sqlDB 1) request None,
                work_called (With request (Some (sqlTx 5))), Rollback_called 5],
       world = (1, 0)\<rparr>)
   \<and> Error (errorString 9 ''rolling back'') = Error Rollback
   \<and> fst (Tx (fixed (5, None) None None) request
            (writes_then (Returns (Some (errorString 9 ''rolling back'')))) start) \<noteq> Returns None"
  using Tx_absorbs_Rollback [of request "sqlDB 1" "fixed (5, None) None (Some ErrTxDone)" start 5 "(0, 0)"
      "writes_then (Returns (Some Rollback))" Rollback "(1, 0)" "Some ErrTxDone" "(1, 0)"]
    Tx_absorbs_Rollback [of request "sqlDB 1" "fixed (5, None) None None" start 5 "(0, 0)"
      "writes_then (Returns (Some (errorString 9 ''rolling back'')))" "errorString 9 ''rolling back''"
      "(1, 0)" None "(0, 0)"]
  by (simp add: run_defs)

text \<open>
  C2. Let the context carry a handle with \<^verbatim>\<open>BeginTx\<close> and let \<^verbatim>\<open>BeginTx\<close> succeed. If the
  unit of work returns an error \<open>E\<close> other than the sentinel, then \<^verbatim>\<open>Tx\<close> calls
  \<^verbatim>\<open>Rollback\<close> on the transaction and returns \<open>E\<close> itself, whatever the rollback returns.
\<close>

theorem Tx_returns_work_error:
  assumes "getDB ctx = (Some h, True)" and "implements_beginTxer h"
    and "BeginTx C h ctx None (world s) = ((tx, None), w1)"
    and "f (With ctx (Some (sqlTx tx))) w1 = (Returns (Some E), w2)"
    and "E \<noteq> Rollback"
    and "Tx_Rollback C tx w2 = (discarded, w3)"
  shows "Tx C ctx f s =
           (Returns (Some E),
            \<lparr>calls = calls s @ [BeginTx_called h ctx None,
                 work_called (With ctx (Some (sqlTx tx))), Rollback_called tx],
             world = w3\<rparr>)"
  using assms(4,5,6) by (simp add: Tx_begun [OF assms(1,2,3)])

text \<open>A run in which the rollback fails with another error than the work's.\<close>

theorem Tx_returns_work_error_witness:
  "Tx (fixed (5, None) None (Some ErrTxDone)) request (writes_then (Returns (Some ErrConnDone))) start =
     (Returns (Some ErrConnDone),
      \<lparr>calls = [BeginTx_called (sqlDB 1) request None,
                work_called (With request (Some (sqlTx 5))), Rollback_called 5],
       world = (1, 0)\<rparr>)"
  using Tx_returns_work_error [of request "sqlDB 1" "fixed (5, None) None (Some ErrTxDone)" start 5
      "(0, 0)" "writes_then (Returns (Some ErrConnDone))" ErrConnDone "(1, 0)" "Some ErrTxDone" "(1, 0)"]
  by (simp add: run_defs)

text \<open>
  C3. Let the context carry a handle with \<^verbatim>\<open>BeginTx\<close> and let \<^verbatim>\<open>BeginTx\<close> succeed. If the
  unit of work returns nil, then \<^verbatim>\<open>Tx\<close> calls \<^verbatim>\<open>Commit\<close> on the transaction and returns
  what \<^verbatim>\<open>Commit\<close> returns: nil, or the commit's own error.
\<close>

theorem Tx_commits:
  assumes "getDB ctx = (Some h, True)" and "implements_beginTxer h"
    and "BeginTx C h ctx None (world s) = ((tx, None), w1)"
    and "f (With ctx (Some (sqlTx tx))) w1 = (Returns None, w2)"
    and "Tx_Commit C tx w2 = (committed, w3)"
  shows "Tx C ctx f s =
           (Returns committed,
            \<lparr>calls = calls s @ [BeginTx_called h ctx None,
                 work_called (With ctx (Some (sqlTx tx))), Commit_called tx],
             world = w3\<rparr>)"
  using assms(4,5) by (simp add: Tx_begun [OF assms(1,2,3)])

text \<open>A run whose commit succeeds, so that the write persists, and one whose commit fails.\<close>

theorem Tx_commits_witness:
  "Tx (fixed (5, None) None None) request (writes_then (Returns None)) start =
     (Returns None,
      \<lparr>calls = [BeginTx_called (sqlDB 1) request None,
                work_called (With request (Some (sqlTx 5))), Commit_called 5],
       world = (0, 1)\<rparr>)
   \<and> Tx (fixed (5, None) (Some ErrConnDone) None) request (writes_then (Returns None)) start =
     (Returns (Some ErrConnDone),
      \<lparr>calls = [BeginTx_called (sqlDB 1) request None,
                work_called (With request (Some (sqlTx 5))), Commit_called 5],
       world = (1, 0)\<rparr>)"
  using Tx_commits [of request "sqlDB 1" "fixed (5, None) None None" start 5
      "(0, 0)" "writes_then (Returns None)" "(1, 0)" None "(0, 1)"]
    Tx_commits [of request "sqlDB 1" "fixed (5, None) (Some ErrConnDone) None" start 5
      "(0, 0)" "writes_then (Returns None)" "(1, 0)" "Some ErrConnDone" "(1, 0)"]
  by (simp add: run_defs)

subsection \<open>Failures before the work runs\<close>

text \<open>
  C4. If the handle resolved from the context has no \<^verbatim>\<open>BeginTx\<close> method, then \<^verbatim>\<open>Tx\<close>
  returns \<^verbatim>\<open>errCantTx\<close>, and it neither calls the unit of work nor anything on the
  handle: no call is logged and the world is as before. In particular this is so for a
  context to which a transaction has been attached, so a transaction is never nested.
\<close>

theorem Tx_no_nesting:
  "(getDB ctx = (Some h, True) \<and> \<not> implements_beginTxer h \<longrightarrow>
      Tx C ctx f s = (Returns (Some errCantTx), s))
   \<and> Tx C (With ctx' (Some (sqlTx tx))) f s = (Returns (Some errCantTx), s)"
  by (simp add: Tx_def getDB_With)

theorem Tx_no_nesting_witness:
  "Tx (fixed (5, None) None None) (With Background (Some (custom 4 False)))
      (writes_then (Returns None)) start = (Returns (Some errCantTx), start)
   \<and> Tx (fixed (5, None) None None) (With request (Some (sqlTx 5)))
      (writes_then (Returns None)) start = (Returns (Some errCantTx), start)"
  using Tx_no_nesting [of "With Background (Some (custom 4 False))" "custom 4 False"
      "fixed (5, None) None None" "writes_then (Returns None)" start request 5]
  by (simp add: getDB_With)

text \<open>
  C5. If no handle is resolved from the context, then \<^verbatim>\<open>Exec\<close>, \<^verbatim>\<open>Query\<close> and \<^verbatim>\<open>Tx\<close>
  return \<^verbatim>\<open>errMissingDB\<close> without calling a handle or the unit of work (the state is
  unchanged), and \<^verbatim>\<open>QueryRow\<close> returns a non-nil row whose \<^verbatim>\<open>Scan\<close> returns
  \<^verbatim>\<open>errMissingDB\<close>.
\<close>

theorem missing_handle:
  assumes "\<not> snd (getDB ctx)"
  shows "Exec C ctx query args s = (Returns (None, Some errMissingDB), s)
       \<and> Query C ctx query args s = (Returns (None, Some errMissingDB), s)
       \<and> Tx C ctx f s = (Returns (Some errMissingDB), s)
       \<and> QueryRow C ctx query args s = (Returns (Some (Row (Some errMissingDB) None)), s)
       \<and> Scan C (Row (Some errMissingDB) None) w = (Some errMissingDB, w)"
  using assms by (cases "getDB ctx") (simp add: Exec_def Query_def Tx_def QueryRow_def)

text \<open>A context that holds a pool, but under the key of another package.\<close>

theorem missing_handle_witness:
  "Exec (fixed (5, None) None None) (valueCtx Background (otherKey 3) (anyDatabaser (sqlDB 1)))
      ''DELETE FROM t'' [] start = (Returns (None, Some errMissingDB), start)
   \<and> Query (fixed (5, None) None None) (valueCtx Background (otherKey 3) (anyDatabaser (sqlDB 1)))
      ''SELECT 1'' [] start = (Returns (None, Some errMissingDB), start)
   \<and> Tx (fixed (5, None) None None) (valueCtx Background (otherKey 3) (anyDatabaser (sqlDB 1)))
      (writes_then (Returns None)) start = (Returns (Some errMissingDB), start)
   \<and> QueryRow (fixed (5, None) None None) (valueCtx Background (otherKey 3) (anyDatabaser (sqlDB 1)))
      ''SELECT 1'' [] start = (Returns (Some (Row (Some errMissingDB) None)), start)
   \<and> Scan (fixed (5, None) None None) (Row (Some errMissingDB) None) (0, 0) = (Some errMissingDB, (0, 0))"
  using missing_handle [of "valueCtx Background (otherKey 3) (anyDatabaser (sqlDB 1))"
      "fixed (5, None) None None" "''DELETE FROM t''" "[]" start "writes_then (Returns None)" "(0, 0)"]
   missing_handle [of "valueCtx Background (otherKey 3) (anyDatabaser (sqlDB 1))"
      "fixed (5, None) None None" "''SELECT 1''" "[]" start "writes_then (Returns None)" "(0, 0)"]
  by (simp add: getDB_def)

text \<open>
  C6. If the context carries a handle with \<^verbatim>\<open>BeginTx\<close>, the first call \<^verbatim>\<open>Tx\<close> makes is
  \<^verbatim>\<open>BeginTx\<close> on that handle with the same context and nil options. If that call returns
  an error, \<^verbatim>\<open>Tx\<close> returns this very error and calls nothing else: the unit of work is
  not run.
\<close>

theorem Tx_begin_fails:
  assumes "getDB ctx = (Some h, True)" and "implements_beginTxer h"
    and "BeginTx C h ctx None (world s) = ((tx, err), w1)"
  shows "take 1 (issued s (snd (Tx C ctx f s))) = [BeginTx_called h ctx None]
       \<and> (err \<noteq> None \<longrightarrow>
            Tx C ctx f s =
              (Returns err, \<lparr>calls = calls s @ [BeginTx_called h ctx None], world = w1\<rparr>))"
  using assms
  by (simp add: Tx_def call_BeginTx_def call_work_def call_Rollback_def call_Commit_def
      logged_def issued_def split: prod.splits outcome.splits option.splits)

theorem Tx_begin_fails_witness:
  "Tx (fixed (0, Some ErrConnDone) None None) request (writes_then (Returns None)) start =
     (Returns (Some ErrConnDone), \<lparr>calls = [BeginTx_called (sqlDB 1) request None], world = (0, 0)\<rparr>)"
  using Tx_begin_fails [of request "sqlDB 1" "fixed (0, Some ErrConnDone) None None" start 0
      "Some ErrConnDone" "(0, 0)" "writes_then (Returns None)"]
  by (simp add: run_defs)

subsection \<open>One begin, one run of the work, one end\<close>

text \<open>
  C7. Let the context carry a handle with \<^verbatim>\<open>BeginTx\<close> and let \<^verbatim>\<open>BeginTx\<close> succeed. Then
  \<^verbatim>\<open>Tx\<close> makes exactly one \<^verbatim>\<open>BeginTx\<close> call, then calls the unit of work exactly once,
  with a context from which the new transaction is resolved, and, when it returns, it has
  made after that exactly one call that ends the transaction, a \<^verbatim>\<open>Commit\<close> or a
  \<^verbatim>\<open>Rollback\<close> on it. These are all the calls it makes, and they are made in earnest:
  the unit of work runs on the world that \<^verbatim>\<open>BeginTx\<close> left, the call that ends the
  transaction runs on the world that the unit of work left, and the world after \<^verbatim>\<open>Tx\<close>
  is the one that this last call left. (If the unit of work panics, \<^verbatim>\<open>Tx\<close> does not
  return; the begin and the work are its only calls and the world is as the work left it.)
\<close>

theorem Tx_once:
  assumes "getDB ctx = (Some h, True)" and "implements_beginTxer h"
    and "BeginTx C h ctx None (world s) = ((tx, None), w1)"
    and "f (With ctx (Some (sqlTx tx))) w1 = (out, w2)"
    and "Tx C ctx f s = (r, s')"
  shows "getDB (With ctx (Some (sqlTx tx))) = (Some (sqlTx tx), True)
       \<and> filter is_begin (issued s s') = [BeginTx_called h ctx None]
       \<and> filter is_work (issued s s') = [work_called (With ctx (Some (sqlTx tx)))]
       \<and> (r \<noteq> Panics \<longrightarrow>
            filter is_terminal (issued s s') = [Commit_called tx]
          \<or> filter is_terminal (issued s s') = [Rollback_called tx])
       \<and> (r = Panics \<longrightarrow> filter is_terminal (issued s s') = [])
       \<and> issued s s' =
            [BeginTx_called h ctx None, work_called (With ctx (Some (sqlTx tx)))]
              @ filter is_terminal (issued s s')
       \<and> (out = Returns None \<longrightarrow>
            r = Returns (fst (Tx_Commit C tx w2))
          \<and> world s' = snd (Tx_Commit C tx w2)
          \<and> filter is_terminal (issued s s') = [Commit_called tx])
       \<and> (\<forall>e. out = Returns (Some e) \<longrightarrow>
            r = Returns (if e = Rollback then None else Some e)
          \<and> world s' = snd (Tx_Rollback C tx w2)
          \<and> filter is_terminal (issued s s') = [Rollback_called tx])
       \<and> (out = Panics \<longrightarrow> r = Panics \<and> world s' = w2)"
proof -
  have run: "(r, s') =
    (case (out, w2) of
       (Panics, w2) \<Rightarrow>
         (Panics, \<lparr>calls = calls s @ [BeginTx_called h ctx None,
                      work_called (With ctx (Some (sqlTx tx)))], world = w2\<rparr>)
     | (Returns None, w2) \<Rightarrow>
         (case Tx_Commit C tx w2 of (r, w3) \<Rightarrow>
           (Returns r, \<lparr>calls = calls s @ [BeginTx_called h ctx None,
                      work_called (With ctx (Some (sqlTx tx))), Commit_called tx], world = w3\<rparr>))
     | (Returns (Some e), w2) \<Rightarrow>
         (case Tx_Rollback C tx w2 of (r, w3) \<Rightarrow>
           (Returns (if e = Rollback then None else Some e),
            \<lparr>calls = calls s @ [BeginTx_called h ctx None,
                      work_called (With ctx (Some (sqlTx tx))), Rollback_called tx], world = w3\<rparr>)))"
    using Tx_begun [OF assms(1,2,3), of f] assms(4,5) by simp
  show ?thesis
  proof (cases out)
    case Panics
    with run show ?thesis by (simp add: issued_def getDB_With)
  next
    case (Returns res)
    show ?thesis
    proof (cases res)
      case None
      with run Returns show ?thesis
        by (simp add: issued_def getDB_With split: prod.splits)
    next
      case (Some e)
      with run Returns show ?thesis
        by (simp add: issued_def getDB_With split: prod.splits)
    qed
  qed
qed

text \<open>
  A committed run, a rolled-back run, and a run whose work panics. The one write of the
  work persists once after the commit and is dropped by the rollback.
\<close>

theorem Tx_once_witness:
  "Tx (fixed (5, None) None None) request (writes_then (Returns None)) start =
     (Returns None,
      \<lparr>calls = [BeginTx_called (sqlDB 1) request None,
                work_called (With request (Some (sqlTx 5))), Commit_called 5],
       world = (0, 1)\<rparr>)
   \<and> issued start (snd (Tx (fixed (5, None) None None) request (writes_then (Returns None)) start)) =
     [BeginTx_called (sqlDB 1) request None, work_called (With request (Some (sqlTx 5))),
      Commit_called 5]
   \<and> Tx (fixed (5, None) None None) request (writes_then (Returns (Some ErrConnDone))) start =
     (Returns (Some ErrConnDone),
      \<lparr>calls = [BeginTx_called (sqlDB 1) request None,
                work_called (With request (Some (sqlTx 5))), Rollback_called 5],
       world = (0, 0)\<rparr>)
   \<and> issued start (snd (Tx (fixed (5, None) None None) request
        (writes_then (Returns (Some ErrConnDone))) start)) =
     [BeginTx_called (sqlDB 1) request None, work_called (With request (Some (sqlTx 5))),
      Rollback_called 5]
   \<and> Tx (fixed (5, None) None None) request (writes_then Panics) start =
     (Panics,
      \<lparr>calls = [BeginTx_called (sqlDB 1) request None,
                work_called (With request (Some (sqlTx 5)))],
       world = (1, 0)\<rparr>)
   \<and> getDB (With request (Some (sqlTx 5))) = (Some (sqlTx 5), True)"
  using Tx_once [of request "sqlDB 1" "fixed (5, None) None None" start 5 "(0, 0)"
      "writes_then (Returns None)" "Returns None" "(1, 0)" "Returns None"
      "\<lparr>calls = [BeginTx_called (sqlDB 1) request None,
         work_called (With request (Some (sqlTx 5))), Commit_called 5], world = (0, 1)\<rparr>"]
    Tx_once [of request "sqlDB 1" "fixed (5, None) None None" start 5 "(0, 0)"
      "writes_then (Returns (Some ErrConnDone))" "Returns (Some ErrConnDone)" "(1, 0)"
      "Returns (Some ErrConnDone)"
      "\<lparr>calls = [BeginTx_called (sqlDB 1) request None,
         work_called (With request (Some (sqlTx 5))), Rollback_called 5], world = (0, 0)\<rparr>"]
    Tx_once [of request "sqlDB 1" "fixed (5, None) None None" start 5 "(0, 0)"
      "writes_then Panics" Panics "(1, 0)" Panics
      "\<lparr>calls = [BeginTx_called (sqlDB 1) request None,
         work_called (With request (Some (sqlTx 5)))], world = (1, 0)\<rparr>"]
  by (simp add: run_defs Tx_def call_BeginTx_def call_work_def call_Commit_def call_Rollback_def
      logged_def issued_def)

subsection \<open>Attaching a handle\<close>

text \<open>
  C8. \<^verbatim>\<open>With\<close> returns a new context that carries the handle and leaves its input as it
  was: for every context and every handle \<open>h\<close>, resolving from \<^verbatim>\<open>With(ctx, h)\<close> gives
  \<open>h\<close> and true, while a lookup that is made in the input itself, or that passes through
  the new node to the input, finds what the input held. A later \<^verbatim>\<open>With\<close> shadows an
  earlier one and does not merge with it: whatever was bound below, the nearest binding is
  the one resolved, and what is resolved does not depend on the bindings below it.
\<close>

theorem With_binds_nearest:
  "getDB (With ctx (Some h)) = (Some h, True)
   \<and> Value (With ctx (Some h)) k = (if k = connKey then anyDatabaser h else Value ctx k)
   \<and> getDB (With (With ctx outer) (Some h)) = (Some h, True)
   \<and> getDB (With (With ctx (Some h')) (Some h)) = (Some h, True)
   \<and> getDB (With (cancelCtx (valueCtx (With ctx (Some h')) (otherKey n) v)) (Some h)) = (Some h, True)
   \<and> getDB (cancelCtx (valueCtx (With ctx (Some h)) (otherKey n) v)) = (Some h, True)
   \<and> getDB (With (With ctx outer) (Some h)) = getDB (With Background (Some h))"
  by (simp add: getDB_def With_def WithValue_def)

subsection \<open>Errors that wrap the sentinel\<close>

text \<open>
  C9. Let the context carry a handle with \<^verbatim>\<open>BeginTx\<close> and let \<^verbatim>\<open>BeginTx\<close> succeed. Every
  error that the unit of work returns and that is not equal to \<^verbatim>\<open>Rollback\<close> is rolled
  back and returned as it is. An error that wraps \<^verbatim>\<open>Rollback\<close>, so that \<^verbatim>\<open>errors.Is\<close>
  finds the sentinel in it, is such an error: \<^verbatim>\<open>Tx\<close> returns it to the caller.
\<close>

theorem Tx_wrapped_Rollback:
  assumes "getDB ctx = (Some h, True)" and "implements_beginTxer h"
    and "BeginTx C h ctx None (world s) = ((tx, None), w1)"
    and "Tx_Rollback C tx w2 = (discarded, w3)"
  shows "(f (With ctx (Some (sqlTx tx))) w1 = (Returns (Some e), w2) \<and> e \<noteq> Rollback \<longrightarrow>
            Tx C ctx f s =
              (Returns (Some e),
               \<lparr>calls = calls s @ [BeginTx_called h ctx None,
                    work_called (With ctx (Some (sqlTx tx))), Rollback_called tx],
                world = w3\<rparr>))
       \<and> (f (With ctx (Some (sqlTx tx))) w1 = (Returns (Some (wrapError a m Rollback)), w2) \<longrightarrow>
            errors_Is (wrapError a m Rollback) Rollback
          \<and> Tx C ctx f s =
              (Returns (Some (wrapError a m Rollback)),
               \<lparr>calls = calls s @ [BeginTx_called h ctx None,
                    work_called (With ctx (Some (sqlTx tx))), Rollback_called tx],
                world = w3\<rparr>))"
  using assms(4) by (simp add: Tx_begun [OF assms(1,2,3)] Rollback_def)

theorem Tx_wrapped_Rollback_witness:
  "errors_Is (wrapError 7 ''save: rolling back'' Rollback) Rollback
   \<and> Tx (fixed (5, None) None None) request
       (writes_then (Returns (Some (wrapError 7 ''save: rolling back'' Rollback)))) start =
     (Returns (Some (wrapError 7 ''save: rolling back'' Rollback)),
      \<lparr>calls = [BeginTx_called (sqlDB 1) request None,
                work_called (With request (Some (sqlTx 5))), Rollback_called 5],
       world = (0, 0)\<rparr>)"
  using Tx_wrapped_Rollback [of request "sqlDB 1" "fixed (5, None) None None" start 5 "(0, 0)"
      "(1, 0)" None "(0, 0)"
      "writes_then (Returns (Some (wrapError 7 ''save: rolling back'' Rollback)))"
      "wrapError 7 ''save: rolling back'' Rollback" 7 "''save: rolling back''"]
  by (simp add: run_defs)

subsection \<open>Attaching nil\<close>

text \<open>
  C10. For every context, resolving from \<^verbatim>\<open>With(ctx, nil)\<close> finds no \<^verbatim>\<open>Databaser\<close>: the
  type assertion reports false, also when the context below carries a handle. So on that
  context \<^verbatim>\<open>Exec\<close>, \<^verbatim>\<open>Query\<close> and \<^verbatim>\<open>Tx\<close>
  return \<^verbatim>\<open>errMissingDB\<close> and leave the state as it is, and \<^verbatim>\<open>QueryRow\<close> returns the row of
  its missing-handle branch.
\<close>

theorem With_nil_is_missing:
  "getDB (With ctx None) = (None, False)
   \<and> getDB (With (With ctx (Some h)) None) = (None, False)
   \<and> Exec C (With ctx None) query args s = (Returns (None, Some errMissingDB), s)
   \<and> Query C (With ctx None) query args s = (Returns (None, Some errMissingDB), s)
   \<and> Tx C (With ctx None) f s = (Returns (Some errMissingDB), s)
   \<and> QueryRow C (With ctx None) query args s =
        (Returns (intoDBRow (row (Some errMissingDB))), s)"
  by (simp add: getDB_With Exec_def Query_def Tx_def QueryRow_def)

end
